theory Spec2Isabelle
  imports Main
begin

section \<open>JavaScript values and errors\<close>

text \<open>
  The values that cross the proxy: call arguments, payloads, routing keys (patterns),
  the entries of the generated \<open>patternMap\<close>. Numbers are the integers; an object is the
  list of its own properties in insertion order.
\<close>

datatype jsval =
    JUndef
  | JNull
  | JBool bool
  | JNum int
  | JStr string
  | JArr "jsval list"
  | JObj "(string \<times> jsval) list"

datatype js_error =
    TypeError string
  | Error string
  | TimeoutError
  | EmptyError

text \<open>JavaScript truthiness, as the conditional operator \<open>c ? a : b\<close> reads its condition.\<close>

fun truthy :: "jsval \<Rightarrow> bool" where
  "truthy JUndef = False"
| "truthy JNull = False"
| "truthy (JBool b) = b"
| "truthy (JNum n) = (n \<noteq> 0)"
| "truthy (JStr s) = (s \<noteq> [])"
| "truthy (JArr xs) = True"
| "truthy (JObj kvs) = True"

text \<open>\<open>obj[key]\<close> on an object literal: the own property, or \<open>undefined\<close>.\<close>

fun get_prop :: "jsval \<Rightarrow> string \<Rightarrow> jsval" where
  "get_prop (JObj kvs) k = (case map_of kvs k of Some v \<Rightarrow> v | None \<Rightarrow> JUndef)"
| "get_prop v k = JUndef"

text \<open>\<open>xs[i]\<close> on an array: \<open>undefined\<close> out of range.\<close>

definition elem_at :: "jsval list \<Rightarrow> nat \<Rightarrow> jsval" where
  "elem_at xs i = (if i < length xs then xs ! i else JUndef)"

text \<open>
  The array destructuring \<open>const [a, b] = v\<close>. It iterates \<open>v\<close>: an array gives its
  elements, a string its characters, and every other value, a plain object included, is
  not iterable and raises a TypeError.
\<close>

fun destructure2 :: "jsval \<Rightarrow> js_error + (jsval \<times> jsval)" where
  "destructure2 (JArr xs) = Inr (elem_at xs 0, elem_at xs 1)"
| "destructure2 (JStr s) = Inr (elem_at (map (\<lambda>c. JStr [c]) s) 0, elem_at (map (\<lambda>c. JStr [c]) s) 1)"
| "destructure2 v = Inl (TypeError ''patternMap[serviceName] is not iterable'')"

definition startsWith :: "string \<Rightarrow> string \<Rightarrow> bool" where
  "startsWith s p = (take (length p) s = p)"

definition endsWith :: "string \<Rightarrow> string \<Rightarrow> bool" where
  "endsWith s p = (length p \<le> length s \<and> drop (length s - length p) s = p)"

section \<open>Streams with virtual time\<close>

text \<open>
  An rxjs stream as one subscriber sees it: the values in order, each with the delay in
  milliseconds since the previous notification (since the subscription for the first),
  then how the stream ends.
\<close>

datatype ending = Completes nat | Fails nat js_error | Hangs

datatype 'a obs = Obs "(nat \<times> 'a) list" ending

fun delay_obs :: "nat \<Rightarrow> 'a obs \<Rightarrow> 'a obs" where
  "delay_obs t (Obs ((g, v) # evs) fin) = Obs ((t + g, v) # evs) fin"
| "delay_obs t (Obs [] (Completes g)) = Obs [] (Completes (t + g))"
| "delay_obs t (Obs [] (Fails g e)) = Obs [] (Fails (t + g) e)"
| "delay_obs t (Obs [] Hangs) = Obs [] Hangs"

fun cons_obs :: "nat \<times> 'a \<Rightarrow> 'a obs \<Rightarrow> 'a obs" where
  "cons_obs ev (Obs evs fin) = Obs (ev # evs) fin"

text \<open>
  \<open>timeout(d)\<close>: the timer restarts at every value and the stream fails with a
  TimeoutError when the next notification (value, completion or error) does not come
  within \<open>d\<close> ms. A notification due exactly when the timer fires loses to it.
\<close>

fun timeout :: "nat \<Rightarrow> 'a obs \<Rightarrow> 'a obs" where
  "timeout d (Obs ((g, v) # evs) fin) =
     (if g < d then cons_obs (g, v) (timeout d (Obs evs fin)) else Obs [] (Fails d TimeoutError))"
| "timeout d (Obs [] (Completes g)) =
     (if g < d then Obs [] (Completes g) else Obs [] (Fails d TimeoutError))"
| "timeout d (Obs [] (Fails g e)) =
     (if g < d then Obs [] (Fails g e) else Obs [] (Fails d TimeoutError))"
| "timeout d (Obs [] Hangs) = Obs [] (Fails d TimeoutError)"

text \<open>\<open>first()\<close>: the first value, then completion; an EmptyError when the stream completes
  without a value.\<close>

fun first_op :: "'a obs \<Rightarrow> 'a obs" where
  "first_op (Obs ((g, v) # evs) fin) = Obs [(g, v)] (Completes 0)"
| "first_op (Obs [] (Completes g)) = Obs [] (Fails g EmptyError)"
| "first_op (Obs [] fin) = Obs [] fin"

text \<open>
  \<open>switchMap(f)\<close> as the proxy uses it, directly behind \<open>first()\<close>: the outer stream has at
  most one value and completes with it, so the result is the inner stream of that value,
  started when the value arrives; an outer stream that ends without a value ends the
  result the same way.
\<close>

fun switchMap :: "('a \<Rightarrow> 'b obs) \<Rightarrow> 'a obs \<Rightarrow> 'b obs" where
  "switchMap f (Obs ((g, v) # evs) fin) = delay_obs g (f v)"
| "switchMap f (Obs [] fin) = Obs [] fin"

text \<open>A promise: settled after so many milliseconds, or never.\<close>

datatype promise = Resolved nat jsval | Rejected nat js_error | Pending

definition elapsed :: "(nat \<times> 'a) list \<Rightarrow> nat" where
  "elapsed evs = sum_list (map fst evs)"

text \<open>\<open>lastValueFrom\<close>: resolves with the last value once the stream completes, rejects with
  the stream's error, and with an EmptyError when it completes without a value.\<close>

fun lastValueFrom :: "jsval obs \<Rightarrow> promise" where
  "lastValueFrom (Obs evs (Completes g)) =
     (if evs = [] then Rejected g EmptyError else Resolved (elapsed evs + g) (snd (last evs)))"
| "lastValueFrom (Obs evs (Fails g e)) = Rejected (elapsed evs + g) e"
| "lastValueFrom (Obs evs Hangs) = Pending"

section \<open>The client proxy (client.service.ts)\<close>

definition SERVICE_TIMEOUT :: int where
  "SERVICE_TIMEOUT = 5000"

text \<open>
  The transport client is a collaborator. \<open>connectFn k\<close> is what the \<open>k\<close>-th invocation of
  \<open>client.connect()\<close> gives (counted from 0), \<open>status\<close> is the feed \<open>client.status\<close> as the
  current call observes it, and \<open>respond\<close> is what \<open>client.send\<close> or \<open>client.emit\<close> gives
  for a pattern and a payload.
\<close>

datatype dispatch = Send | Emit

record transport =
  connectFn :: "nat \<Rightarrow> jsval obs"
  status :: "jsval obs"
  respond :: "dispatch \<Rightarrow> jsval \<Rightarrow> jsval \<Rightarrow> jsval obs"

datatype log_entry =
    LogWarn js_error string
  | LogError js_error string
  | LogDebug string

text \<open>The one mutable variable of a proxy: \<open>let firstCall = true\<close>.\<close>

record proxy_state =
  firstCall :: bool

record conn_run =
  conn :: "jsval obs"
  attempts :: nat
  conn_log :: "log_entry list"

text \<open>\<open>attempt$\<close> behind \<open>timeout(2000)\<close>: every subscription invokes \<open>client.connect()\<close> anew.\<close>

definition attempt :: "(nat \<Rightarrow> jsval obs) \<Rightarrow> nat \<Rightarrow> jsval obs" where
  "attempt f k = timeout 2000 (f k)"

definition established :: "string \<Rightarrow> jsval obs \<Rightarrow> log_entry list" where
  "established svc ob =
     (case ob of Obs (ev # evs) fin \<Rightarrow> [LogDebug (svc @ '' connection established'')]
               | Obs [] fin \<Rightarrow> [])"

text \<open>
  \<open>connection$\<close>: the attempt with its warning on error, \<open>retry({count, delay: 3000})\<close> and
  the final error log. The first argument is the number of retries left, the second the
  index of the next invocation of \<open>client.connect()\<close>. The subscriber is \<open>first()\<close>, which
  unsubscribes at the first value, so an attempt that has delivered a value is never
  retried; the stream is given up to that attempt.
\<close>

fun connection :: "string \<Rightarrow> (nat \<Rightarrow> jsval obs) \<Rightarrow> nat \<Rightarrow> nat \<Rightarrow> conn_run" where
  "connection svc f 0 k =
     (case attempt f k of
        Obs [] (Fails g e) \<Rightarrow>
          \<lparr>conn = Obs [] (Fails g e), attempts = 1,
           conn_log = [LogWarn e svc,
                       LogError e (''Max retries exceeded, unable to connect to '' @ svc)]\<rparr>
      | ob \<Rightarrow> \<lparr>conn = ob, attempts = 1, conn_log = established svc ob\<rparr>)"
| "connection svc f (Suc n) k =
     (case attempt f k of
        Obs [] (Fails g e) \<Rightarrow>
          (let r = connection svc f n (Suc k)
           in \<lparr>conn = delay_obs (g + 3000) (conn r), attempts = Suc (attempts r),
               conn_log = LogWarn e svc # conn_log r\<rparr>)
      | ob \<Rightarrow> \<lparr>conn = ob, attempts = 1, conn_log = established svc ob\<rparr>)"

text \<open>The tap on the status feed: it throws at the first status that is not "connected".\<close>

fun tap_connected :: "string \<Rightarrow> jsval obs \<Rightarrow> jsval obs" where
  "tap_connected svc (Obs ((g, s) # evs) fin) =
     (if s \<noteq> JStr ''connected''
      then Obs [] (Fails g (Error (''Client not connected to '' @ svc)))
      else cons_obs (g, s) (tap_connected svc (Obs evs fin)))"
| "tap_connected svc (Obs [] fin) = Obs [] fin"

definition connect :: "string \<Rightarrow> transport \<Rightarrow> proxy_state \<Rightarrow> conn_run \<times> proxy_state" where
  "connect serviceName tr st =
     (if \<not> firstCall st
      then (\<lparr>conn = tap_connected serviceName (status tr), attempts = 0, conn_log = []\<rparr>, st)
      else (connection serviceName (connectFn tr) 5 0, st\<lparr>firstCall := False\<rparr>))"

text \<open>\<open>options?.timeout ?? SERVICE_TIMEOUT\<close>\<close>

definition call_timeout :: "jsval \<Rightarrow> jsval" where
  "call_timeout options =
     (let t = get_prop options ''timeout''
      in if t = JUndef \<or> t = JNull then JNum SERVICE_TIMEOUT else t)"

text \<open>
  \<open>timeout(ms)\<close> on the value the call computed: a number is the time allowed between
  notifications; rxjs refuses a value that names no duration with a TypeError.
\<close>

fun timeout_js :: "jsval \<Rightarrow> 'a obs \<Rightarrow> 'a obs" where
  "timeout_js (JNum n) ob = timeout (nat n) ob"
| "timeout_js v ob = Obs [] (Fails 0 (TypeError ''No timeout provided.''))"

text \<open>What one call did: a request is the dispatch mode, the pattern, the payload and the
  per-call timeout handed to the transport.\<close>

datatype request = Request dispatch jsval jsval jsval

datatype ret = Stream "jsval obs" | Deferred promise

record call_result =
  stream :: "jsval obs"
  returned :: ret
  connectCalls :: nat
  sent :: "request list"
  logged :: "log_entry list"

definition delivers :: "'a obs \<Rightarrow> bool" where
  "delivers ob = (case ob of Obs (ev # evs) fin \<Rightarrow> True | Obs [] fin \<Rightarrow> False)"

text \<open>
  The function the proxy stores for a method name (lines 110 to 119), with the variables
  it captures as parameters. \<open>stream\<close> is \<open>ob$\<close> as a subscriber sees it; the effects are
  those of that one subscription.
\<close>

definition bound_call ::
  "string \<Rightarrow> string \<Rightarrow> jsval \<Rightarrow> jsval \<Rightarrow> transport \<Rightarrow> proxy_state \<Rightarrow> jsval \<Rightarrow> jsval
     \<Rightarrow> call_result \<times> proxy_state" where
  "bound_call serviceName methodName pattern hasPayload tr st arg1 arg2 =
     (let isEmitMethod = startsWith methodName ''emit'';
          isObservable = (isEmitMethod \<or> endsWith methodName ''$'');
          m = (if isEmitMethod then Emit else Send);
          payload = (if truthy hasPayload then arg1 else JObj []);
          options = (if truthy hasPayload then arg2 else arg1);
          ms = call_timeout options;
          (c, st') = connect serviceName tr st;
          ob = switchMap (\<lambda>_. timeout_js ms (respond tr m pattern payload)) (first_op (conn c))
      in (\<lparr>stream = ob,
           returned = (if isObservable then Stream ob else Deferred (lastValueFrom ob)),
           connectCalls = attempts c,
           sent = (if delivers (conn c) then [Request m pattern payload ms] else []),
           logged = conn_log c\<rparr>, st'))"

text \<open>
  The \<open>get\<close> trap of the proxy. The target caches the functions by method name; a function
  is represented by the variables it captures.
\<close>

record binding =
  b_method :: string
  b_pattern :: jsval
  b_hasPayload :: jsval

definition proxy_get ::
  "jsval \<Rightarrow> string \<Rightarrow> (string \<rightharpoonup> binding) \<Rightarrow> string
     \<Rightarrow> js_error + (binding \<times> (string \<rightharpoonup> binding))" where
  "proxy_get patternMap serviceName target methodName =
     (case target methodName of
        Some b \<Rightarrow> Inr (b, target)
      | None \<Rightarrow>
          (case destructure2 (get_prop patternMap serviceName) of
             Inl e \<Rightarrow> Inl e
           | Inr (pattern, hasPayload) \<Rightarrow>
               (let b = \<lparr>b_method = methodName, b_pattern = pattern, b_hasPayload = hasPayload\<rparr>
                in Inr (b, target(methodName \<mapsto> b)))))"

definition call_binding ::
  "string \<Rightarrow> binding \<Rightarrow> transport \<Rightarrow> proxy_state \<Rightarrow> jsval \<Rightarrow> jsval \<Rightarrow> call_result \<times> proxy_state" where
  "call_binding serviceName b = bound_call serviceName (b_method b) (b_pattern b) (b_hasPayload b)"

text \<open>A sequence of calls on one proxy, each with the transport as it behaves at that call.\<close>

record call =
  c_method :: string
  c_pattern :: jsval
  c_hasPayload :: jsval
  c_transport :: transport
  c_arg1 :: jsval
  c_arg2 :: jsval

fun run_calls :: "string \<Rightarrow> proxy_state \<Rightarrow> call list \<Rightarrow> call_result list" where
  "run_calls svc st [] = []"
| "run_calls svc st (c # cs) =
     (let (r, st') = bound_call svc (c_method c) (c_pattern c) (c_hasPayload c)
                       (c_transport c) st (c_arg1 c) (c_arg2 c)
      in r # run_calls svc st' cs)"

section \<open>The generator (generate-patterns-from-decorators.ts)\<close>

subsection \<open>Strings and library functions\<close>

definition join :: "string \<Rightarrow> string list \<Rightarrow> string" where
  "join sep xs = (case xs of [] \<Rightarrow> [] | y # ys \<Rightarrow> y @ concat (map (\<lambda>z. sep @ z) ys))"

definition lower_letters :: string where
  "lower_letters = ''abcdefghijklmnopqrstuvwxyz''"

definition upper_letters :: string where
  "upper_letters = ''ABCDEFGHIJKLMNOPQRSTUVWXYZ''"

definition digit_chars :: string where
  "digit_chars = ''0123456789''"

definition toUpperCase :: "char \<Rightarrow> char" where
  "toUpperCase c = (case map_of (zip lower_letters upper_letters) c of Some u \<Rightarrow> u | None \<Rightarrow> c)"

definition toLowerCase :: "char \<Rightarrow> char" where
  "toLowerCase c = (case map_of (zip upper_letters lower_letters) c of Some l \<Rightarrow> l | None \<Rightarrow> c)"

text \<open>The class \<open>[\w-]\<close> of the event pattern.\<close>

definition word_or_hyphen :: "char \<Rightarrow> bool" where
  "word_or_hyphen c = (c \<in> set lower_letters \<or> c \<in> set upper_letters \<or> c \<in> set digit_chars
                        \<or> c = CHR ''_'' \<or> c = CHR ''-'')"

text \<open>
  The functions of the remeda library that main uses. The library is not part of the
  repository; they are modelled on ASCII names. \<open>capitalize\<close> and \<open>uncapitalize\<close> change the
  case of the first character. Words are the maximal runs of letters and digits, split
  again before a capital that follows a small letter or a digit.
\<close>

definition capitalize :: "string \<Rightarrow> string" where
  "capitalize s = (case s of [] \<Rightarrow> [] | c # cs \<Rightarrow> toUpperCase c # cs)"

definition uncapitalize :: "string \<Rightarrow> string" where
  "uncapitalize s = (case s of [] \<Rightarrow> [] | c # cs \<Rightarrow> toLowerCase c # cs)"

definition alnum :: "char \<Rightarrow> bool" where
  "alnum c = (c \<in> set lower_letters \<or> c \<in> set upper_letters \<or> c \<in> set digit_chars)"

fun words_acc :: "string \<Rightarrow> string \<Rightarrow> string list" where
  "words_acc w [] = (if w = [] then [] else [w])"
| "words_acc w (c # cs) =
     (if \<not> alnum c then (if w = [] then [] else [w]) @ words_acc [] cs
      else if w \<noteq> [] \<and> c \<in> set upper_letters \<and> last w \<notin> set upper_letters
           then w # words_acc [c] cs
      else words_acc (w @ [c]) cs)"

definition words :: "string \<Rightarrow> string list" where
  "words s = words_acc [] s"

definition toCamelCase :: "string \<Rightarrow> string" where
  "toCamelCase s =
     (case words (if \<exists>c \<in> set s. c \<in> set lower_letters then s else map toLowerCase s) of
        [] \<Rightarrow> []
      | w # ws \<Rightarrow> uncapitalize w @ concat (map capitalize ws))"

definition toKebabCase :: "string \<Rightarrow> string" where
  "toKebabCase s = map toLowerCase (join ''-'' (words s))"

text \<open>
  \<open>isEmpty\<close> as remeda 2 defines it: \<open>undefined\<close> and the empty string are empty, an array
  is empty when its length is 0, and any other value when \<open>Object.keys\<close> gives no key, so
  that a number or a boolean counts as empty and \<open>null\<close> throws.
\<close>

fun isEmpty :: "jsval \<Rightarrow> js_error + bool" where
  "isEmpty JUndef = Inr True"
| "isEmpty (JStr s) = Inr (s = [])"
| "isEmpty (JArr xs) = Inr (xs = [])"
| "isEmpty (JObj kvs) = Inr (kvs = [])"
| "isEmpty (JNum n) = Inr True"
| "isEmpty (JBool b) = Inr True"
| "isEmpty JNull = Inl (TypeError ''Cannot convert undefined or null to object'')"

subsection \<open>JSON.stringify\<close>

fun show_nat :: "nat \<Rightarrow> string" where
  "show_nat n = (if n < 10 then [digit_chars ! n] else show_nat (n div 10) @ [digit_chars ! (n mod 10)])"

declare show_nat.simps [simp del]

definition show_int :: "int \<Rightarrow> string" where
  "show_int i = (if i < 0 then ''-'' @ show_nat (nat (- i)) else show_nat (nat i))"

definition dquote :: char where
  "dquote = CHR 0x22"

definition squote :: char where
  "squote = CHR 0x27"

definition backslash :: char where
  "backslash = CHR 0x5C"

definition hex_chars :: string where
  "hex_chars = ''0123456789abcdef''"

definition json_escape :: "char \<Rightarrow> string" where
  "json_escape c =
     (if c = dquote then [backslash, dquote]
      else if c = backslash then [backslash, backslash]
      else if c = CHR 0x08 then [backslash, CHR ''b'']
      else if c = CHR 0x0C then [backslash, CHR ''f'']
      else if c = CHR 0x0A then [backslash, CHR ''n'']
      else if c = CHR 0x0D then [backslash, CHR ''r'']
      else if c = CHR 0x09 then [backslash, CHR ''t'']
      else if (of_char c :: nat) < 32
           then [backslash, CHR ''u'', CHR ''0'', CHR ''0'',
                 hex_chars ! ((of_char c :: nat) div 16), hex_chars ! ((of_char c :: nat) mod 16)]
      else [c])"

definition json_quote :: "string \<Rightarrow> string" where
  "json_quote s = dquote # concat (map json_escape s) @ [dquote]"

text \<open>
  \<open>JSON.stringify\<close>: \<open>None\<close> is the result \<open>undefined\<close>. In an array \<open>undefined\<close> is
  written \<open>null\<close>; in an object a property whose value is \<open>undefined\<close> is left out.
\<close>

fun json_stringify :: "jsval \<Rightarrow> string option"
  and json_elems :: "jsval list \<Rightarrow> string list"
  and json_props :: "(string \<times> jsval) list \<Rightarrow> string list" where
  "json_stringify JUndef = None"
| "json_stringify JNull = Some ''null''"
| "json_stringify (JBool b) = Some (if b then ''true'' else ''false'')"
| "json_stringify (JNum n) = Some (show_int n)"
| "json_stringify (JStr s) = Some (json_quote s)"
| "json_stringify (JArr xs) = Some (''['' @ join '','' (json_elems xs) @ '']'')"
| "json_stringify (JObj kvs) = Some (''{'' @ join '','' (json_props kvs) @ ''}'')"
| "json_elems [] = []"
| "json_elems (x # xs) =
     (case json_stringify x of None \<Rightarrow> ''null'' | Some t \<Rightarrow> t) # json_elems xs"
| "json_props [] = []"
| "json_props ((k, v) # kvs) =
     (case json_stringify v of None \<Rightarrow> json_props kvs
                             | Some t \<Rightarrow> (json_quote k @ '':'' @ t) # json_props kvs)"

subsection \<open>The routing-key value of a type\<close>

text \<open>
  A type as \<open>valueFromType\<close> questions it. \<open>LiteralType\<close> is a type whose
  \<open>getLiteralValue()\<close> is defined (a string or number literal type). \<open>TupleType\<close> carries
  whether the tuple has a rest or variadic element, its element types and, being an
  object type as well, its properties. A property has the type of its value declaration,
  or no value declaration.
\<close>

datatype literal = StringLit string | NumberLit int

fun literalValue :: "literal \<Rightarrow> jsval" where
  "literalValue (StringLit s) = JStr s"
| "literalValue (NumberLit n) = JNum n"

datatype ts_type =
    LiteralType literal
  | TupleType bool "ts_type list" "(string \<times> ts_type option) list"
  | ObjectType "(string \<times> ts_type option) list"
  | OtherType

fun obj_put :: "(string \<times> 'v) list \<Rightarrow> string \<Rightarrow> 'v \<Rightarrow> (string \<times> 'v) list" where
  "obj_put [] k v = [(k, v)]"
| "obj_put ((k', v') # kvs) k v = (if k' = k then (k, v) # kvs else (k', v') # obj_put kvs k v)"

fun valueFromType :: "ts_type \<Rightarrow> js_error + jsval"
  and tupleValues :: "ts_type list \<Rightarrow> js_error + jsval list"
  and pullObject :: "(string \<times> jsval) list \<Rightarrow> (string \<times> ts_type option) list
                       \<Rightarrow> js_error + (string \<times> jsval) list" where
  "valueFromType (LiteralType l) = Inr (literalValue l)"
| "valueFromType (TupleType variable elems props) =
     (if \<not> variable
      then (case tupleValues elems of Inl e \<Rightarrow> Inl e | Inr vs \<Rightarrow> Inr (JArr vs))
      else (case pullObject [] props of Inl e \<Rightarrow> Inl e | Inr kvs \<Rightarrow> Inr (JObj kvs)))"
| "valueFromType (ObjectType props) =
     (case pullObject [] props of Inl e \<Rightarrow> Inl e | Inr kvs \<Rightarrow> Inr (JObj kvs))"
| "valueFromType OtherType = Inl (Error ''Cannot extract value from type'')"
| "tupleValues [] = Inr []"
| "tupleValues (t # ts) =
     (case valueFromType t of
        Inl e \<Rightarrow> Inl e
      | Inr v \<Rightarrow> (case tupleValues ts of Inl e \<Rightarrow> Inl e | Inr vs \<Rightarrow> Inr (v # vs)))"
| "pullObject acc [] = Inr acc"
| "pullObject acc ((k, None) # ps) =
     Inl (TypeError ''Cannot read properties of undefined (reading getType)'')"
| "pullObject acc ((k, Some t) # ps) =
     (case valueFromType t of Inl e \<Rightarrow> Inl e | Inr v \<Rightarrow> pullObject (obj_put acc k v) ps)"

subsection \<open>The scanned program\<close>

text \<open>
  What main reads from the type checker. A decorator is known by the text of its callee
  when it is a call of an identifier (\<open>@Payload()\<close>), which is all \<open>isDecoratorOneOf\<close>
  looks at. A pattern expression, the first argument of the pattern decorator, carries
  its source text, whether it is a literal, array literal or object literal expression,
  what \<open>eval\<close> makes of the text in parentheses (\<open>None\<close> when it throws), its type, and
  whether that type has a string-like flag.
\<close>

record pattern_expr =
  e_text :: string
  e_inline :: bool
  e_eval :: "jsval option"
  e_type :: ts_type
  e_stringLike :: bool
  e_pos :: string

record method_decorator =
  d_callee :: "string option"
  d_argument :: pattern_expr

record method_decl =
  m_name :: string
  m_decorators :: "method_decorator list"
  m_parameters :: "string option list list"
  m_namePos :: string
  m_pos :: string

record class_decl =
  k_name :: string
  k_exported :: bool
  k_methods :: "method_decl list"

record controller_file =
  f_path :: string
  f_classes :: "class_decl list"

text \<open>A service module \<open>apps/<dir>/src/<dir>.module.ts\<close>, as the glob and its filter find
  it, with the controller files under its directory.\<close>

record service_module =
  s_dir :: string
  s_controllers :: "controller_file list"

record MethodInfo =
  controllerPath :: string
  className :: string
  methodName :: string
  pattern :: string
  paramIndex :: int
  serviceName :: string
  isEventHandler :: bool
  eventName :: "string option"
  method_pos :: string

datatype diagnostic =
    NotStringPattern string string string
  | EmitPrefixedName string string string
  | PatternNotExtracted string string string
  | EventPatternFormat string string string
  | MethodsNotUnique string "(string \<times> string \<times> string) list"
  | ServicesNotUnique "string list"

text \<open>The module-level state: \<open>errorFlag\<close>, what \<open>console.error\<close> has printed, and
  \<open>methodsByModule\<close>.\<close>

record gen_state =
  errorFlag :: bool
  printed :: "diagnostic list"
  methodsByModule :: "(string \<times> MethodInfo list) list"

definition initial_state :: gen_state where
  "initial_state = \<lparr>errorFlag = False, printed = [], methodsByModule = []\<rparr>"

text \<open>Every diagnostic of main is a \<open>console.error\<close> followed by \<open>errorFlag = true\<close>.\<close>

definition report :: "diagnostic \<Rightarrow> gen_state \<Rightarrow> gen_state" where
  "report d st = st\<lparr>errorFlag := True, printed := printed st @ [d]\<rparr>"

definition isDecoratorOneOf :: "string list \<Rightarrow> string option \<Rightarrow> bool" where
  "isDecoratorOneOf names d = (case d of None \<Rightarrow> False | Some text \<Rightarrow> text \<in> set names)"

fun findIndex :: "('a \<Rightarrow> bool) \<Rightarrow> 'a list \<Rightarrow> int" where
  "findIndex P [] = - 1"
| "findIndex P (x # xs) =
     (if P x then 0 else (let i = findIndex P xs in if i = - 1 then - 1 else i + 1))"

text \<open>
  \<open>eventPatternRe\<close> on a pattern text: an opening quote of one of the three kinds, the
  kebab-case service name, a dot, a non-empty name of word characters and hyphens, and
  the same quote again, with nothing before or after. The result is the group \<open>name\<close>.
  The service name stands in the expression unescaped; a kebab-case name has word
  characters and hyphens only, which match themselves.
\<close>

definition eventPatternRe :: "string \<Rightarrow> string \<Rightarrow> string option" where
  "eventPatternRe serviceNameKebab text =
     (case text of
        [] \<Rightarrow> None
      | q # rest \<Rightarrow>
          (if (q = squote \<or> q = dquote \<or> q = CHR ''`'') \<and> rest \<noteq> [] \<and> last rest = q
                \<and> startsWith (butlast rest) (serviceNameKebab @ ''.'')
           then (let name = drop (length serviceNameKebab + 1) (butlast rest)
                 in if name \<noteq> [] \<and> list_all word_or_hyphen name then Some name else None)
           else None))"

definition throwsWhenEvaluated :: string where
  "throwsWhenEvaluated = ''(null).5''"

text \<open>
  The \<open>try\<close> block of main: the pattern text, then \<open>eval\<close> of it and the test that the
  value is not empty. For a pattern taken from the type, the text is the JSON of the
  value and evaluates to that value again.
\<close>

definition notEmpty :: "jsval \<Rightarrow> string \<Rightarrow> js_error + string" where
  "notEmpty v text =
     (case isEmpty v of
        Inl e \<Rightarrow> Inl e
      | Inr isE \<Rightarrow> if isE then Inl (Error ''Cannot extract pattern value'') else Inr text)"

definition extractPattern :: "pattern_expr \<Rightarrow> js_error + string" where
  "extractPattern patternExpr =
     (if e_inline patternExpr
      then (case e_eval patternExpr of
              None \<Rightarrow> Inl (Error ''eval'')
            | Some v \<Rightarrow> notEmpty v (e_text patternExpr))
      else (case valueFromType (e_type patternExpr) of
              Inl e \<Rightarrow> Inl e
            | Inr v \<Rightarrow>
                (case json_stringify v of
                   None \<Rightarrow> Inl (TypeError throwsWhenEvaluated)
                 | Some text \<Rightarrow>
                     if text = [] then Inl (TypeError throwsWhenEvaluated) else notEmpty v text)))"

definition paramIndexOf :: "string option list list \<Rightarrow> int" where
  "paramIndexOf parameters =
     (let decoratedParameterIndex =
            findIndex (\<lambda>p. \<exists>d \<in> set p. isDecoratorOneOf [''Payload'', ''Body''] d) parameters
      in if length parameters > 0 \<and> decoratedParameterIndex = - 1 then 0
         else decoratedParameterIndex)"

text \<open>The callback of main for one method of an exported class (lines 128 to 235): the
  record of the handler, or nothing, and the state with what it has reported.\<close>

definition extractMethod ::
  "string \<Rightarrow> string \<Rightarrow> string \<Rightarrow> string \<Rightarrow> method_decl \<Rightarrow> gen_state
     \<Rightarrow> MethodInfo option \<times> gen_state" where
  "extractMethod svcName serviceNameKebab path cls method st =
     (case find (\<lambda>d. isDecoratorOneOf [''MessagePattern'', ''EventPattern''] (d_callee d))
             (m_decorators method) of
        None \<Rightarrow> (None, st)
      | Some patternDecorator \<Rightarrow>
          (let isEvent = (d_callee patternDecorator = Some ''EventPattern'');
               name = m_name method;
               patternExpr = d_argument patternDecorator
           in if isEvent \<and> \<not> e_stringLike patternExpr
              then (None, report (NotStringPattern name path (e_pos patternExpr)) st)
              else if \<not> isEvent \<and> startsWith name ''emit''
              then (None, report (EmitPrefixedName name path (m_namePos method)) st)
              else (case extractPattern patternExpr of
                      Inl e \<Rightarrow> (None, report (PatternNotExtracted name path (e_pos patternExpr)) st)
                    | Inr text \<Rightarrow>
                        if isEvent \<and> eventPatternRe serviceNameKebab text = None
                        then (None, report (EventPatternFormat text path (e_pos patternExpr)) st)
                        else (Some \<lparr>controllerPath = path, className = cls, methodName = name,
                                     pattern = text,
                                     paramIndex = paramIndexOf (m_parameters method),
                                     serviceName = svcName, isEventHandler = isEvent,
                                     eventName =
                                       (if isEvent
                                        then map_option toCamelCase
                                               (eventPatternRe serviceNameKebab text)
                                        else None),
                                     method_pos = m_pos method\<rparr>, st))))"

fun extractMethods ::
  "string \<Rightarrow> string \<Rightarrow> string \<Rightarrow> string \<Rightarrow> method_decl list \<Rightarrow> gen_state
     \<Rightarrow> MethodInfo list \<times> gen_state" where
  "extractMethods svcName kebab path cls [] st = ([], st)"
| "extractMethods svcName kebab path cls (m # ms) st =
     (let (r, st1) = extractMethod svcName kebab path cls m st;
          (rs, st2) = extractMethods svcName kebab path cls ms st1
      in ((case r of None \<Rightarrow> rs | Some info \<Rightarrow> info # rs), st2))"

fun extractClasses ::
  "string \<Rightarrow> string \<Rightarrow> string \<Rightarrow> class_decl list \<Rightarrow> gen_state \<Rightarrow> MethodInfo list \<times> gen_state" where
  "extractClasses svcName kebab path [] st = ([], st)"
| "extractClasses svcName kebab path (c # cs) st =
     (if k_exported c
      then (let (rs1, st1) = extractMethods svcName kebab path (k_name c) (k_methods c) st;
                (rs2, st2) = extractClasses svcName kebab path cs st1
            in (rs1 @ rs2, st2))
      else extractClasses svcName kebab path cs st)"

fun extractControllers ::
  "string \<Rightarrow> string \<Rightarrow> controller_file list \<Rightarrow> gen_state \<Rightarrow> MethodInfo list \<times> gen_state" where
  "extractControllers svcName kebab [] st = ([], st)"
| "extractControllers svcName kebab (f # fs) st =
     (let (rs1, st1) = extractClasses svcName kebab (f_path f) (f_classes f) st;
          (rs2, st2) = extractControllers svcName kebab fs st1
      in (rs1 @ rs2, st2))"

text \<open>\<open>R.groupBy\<close> followed by the filter on groups of more than one: the groups in the
  order in which their keys first occur.\<close>

definition firstOccurrences :: "'a list \<Rightarrow> 'a list" where
  "firstOccurrences xs = rev (remdups (rev xs))"

definition duplicateGroupsBy :: "('a \<Rightarrow> 'k) \<Rightarrow> 'a list \<Rightarrow> 'a list list" where
  "duplicateGroupsBy key xs =
     filter (\<lambda>group. length group > 1)
       (map (\<lambda>k. filter (\<lambda>x. key x = k) xs) (firstOccurrences (map key xs)))"

definition modulePathOf :: "service_module \<Rightarrow> string" where
  "modulePathOf md = ''apps/'' @ s_dir md @ ''/src/'' @ s_dir md @ ''.module.ts''"

definition moduleBasename :: "service_module \<Rightarrow> string" where
  "moduleBasename md = s_dir md @ ''.module.ts''"

text \<open>One turn of the loop over the main modules (lines 106 to 327), without the proxy
  interface file it writes and without the aliases it gives to class names for that file.\<close>

definition scanModule :: "service_module \<Rightarrow> gen_state \<Rightarrow> gen_state" where
  "scanModule md st =
     (let basename = s_dir md;
          svcName = capitalize (toCamelCase basename);
          serviceNameKebab = toKebabCase svcName;
          (methods, st1) = extractControllers svcName serviceNameKebab (s_controllers md) st
      in if methods = [] then st1
         else (let st2 = fold (\<lambda>duplicateGroup.
                                  report (MethodsNotUnique svcName
                                    (map (\<lambda>info. (methodName info, controllerPath info, method_pos info))
                                       duplicateGroup)))
                           (duplicateGroupsBy methodName methods) st1
               in st2\<lparr>methodsByModule := obj_put (methodsByModule st2) (modulePathOf md) methods\<rparr>))"

definition main :: "service_module list \<Rightarrow> gen_state" where
  "main mainModules =
     (let st1 = fold scanModule mainModules initial_state
      in fold (\<lambda>duplicateGroup. report (ServicesNotUnique (map modulePathOf duplicateGroup)))
           (duplicateGroupsBy moduleBasename mainModules) st1)"



subsection \<open>The generated pattern map\<close>

definition clientMethodName :: "MethodInfo \<Rightarrow> string" where
  "clientMethodName info =
     (if isEventHandler info
      then ''emit'' @ capitalize (case eventName info of Some n \<Rightarrow> n | None \<Rightarrow> ''undefined'')
      else methodName info)"

definition hasPayloadText :: "MethodInfo \<Rightarrow> string" where
  "hasPayloadText info = (if paramIndex info \<noteq> - 1 then ''true'' else ''false'')"

definition patternEntry :: "MethodInfo \<Rightarrow> string" where
  "patternEntry info =
     clientMethodName info @ '': [('' @ pattern info @ ''), '' @ hasPayloadText info @ '']''"

text \<open>\<open>R.mapKeys\<close> with the uncapitalized service name of the first record of each group;
  \<open>R.first\<close> of an empty group is \<open>undefined\<close> and reading its service name throws.\<close>

fun mapKeys ::
  "(string \<times> MethodInfo list) list \<Rightarrow> (string \<times> MethodInfo list) list
     \<Rightarrow> js_error + (string \<times> MethodInfo list) list" where
  "mapKeys acc [] = Inr acc"
| "mapKeys acc ((modulePath, []) # rest) =
     Inl (TypeError ''Cannot read properties of undefined (reading serviceName)'')"
| "mapKeys acc ((modulePath, info # infos) # rest) =
     mapKeys (obj_put acc (uncapitalize (serviceName info)) (info # infos)) rest"

definition patternMapText :: "(string \<times> MethodInfo list) list \<Rightarrow> js_error + string" where
  "patternMapText byModule =
     (case mapKeys [] byModule of
        Inl e \<Rightarrow> Inl e
      | Inr groups \<Rightarrow>
          Inr (join '',''
                 (map (\<lambda>(name, group). name @ '': {'' @ join '','' (map patternEntry group) @ ''}'')
                    groups)))"

section \<open>Example inputs\<close>

text \<open>A transport that connects after 10 ms and answers every request with the values 1
  and 2.\<close>

definition steady_transport :: transport where
  "steady_transport =
     \<lparr>connectFn = (\<lambda>k. Obs [(10, JStr ''connected'')] (Completes 0)),
      status = Obs [(0, JStr ''connected'')] Hangs,
      respond = (\<lambda>d p x. Obs [(5, JNum 1), (5, JNum 2)] (Completes 1))\<rparr>"

text \<open>A transport that connects and answers a request with its payload.\<close>

definition echo_transport :: transport where
  "echo_transport =
     \<lparr>connectFn = (\<lambda>k. Obs [(10, JStr ''connected'')] (Completes 0)),
      status = Obs [(0, JStr ''connected'')] Hangs,
      respond = (\<lambda>d p x. Obs [(5, x)] (Completes 1))\<rparr>"



text \<open>A transport whose status feed says "disconnected" after 3 ms.\<close>

definition disconnected_transport :: transport where
  "disconnected_transport =
     \<lparr>connectFn = (\<lambda>k. Obs [(10, JStr ''connected'')] (Completes 0)),
      status = Obs [(3, JStr ''disconnected'')] Hangs,
      respond = (\<lambda>d p x. Obs [(5, x)] (Completes 1))\<rparr>"

definition fresh_proxy :: proxy_state where
  "fresh_proxy = \<lparr>firstCall = True\<rparr>"

definition two_calls :: "call list" where
  "two_calls =
     [\<lparr>c_method = ''getUser'', c_pattern = JStr ''get_user'', c_hasPayload = JBool True,
       c_transport = echo_transport, c_arg1 = JNum 7, c_arg2 = JUndef\<rparr>,
      \<lparr>c_method = ''getUser'', c_pattern = JStr ''get_user'', c_hasPayload = JBool True,
       c_transport = disconnected_transport, c_arg1 = JNum 8, c_arg2 = JUndef\<rparr>]"

text \<open>An event handler with the inline pattern "users.created" and a payload parameter in
  second place, a request handler whose name starts with \<open>emit\<close> and whose pattern is a
  constant of the tuple type \<open>["orders", 1]\<close>, and a method without a pattern decorator.\<close>

definition users_created_expr :: pattern_expr where
  "users_created_expr =
     \<lparr>e_text = dquote # ''users.created'' @ [dquote], e_inline = True,
      e_eval = Some (JStr ''users.created''),
      e_type = LiteralType (StringLit ''users.created''), e_stringLike = True,
      e_pos = ''12:17''\<rparr>"

definition created_handler :: method_decl where
  "created_handler =
     \<lparr>m_name = ''onCreated'',
      m_decorators = [\<lparr>d_callee = Some ''EventPattern'', d_argument = users_created_expr\<rparr>],
      m_parameters = [[], [Some ''Payload'']],
      m_namePos = ''13:3'', m_pos = ''12:3''\<rparr>"

definition orders_tuple_expr :: pattern_expr where
  "orders_tuple_expr =
     \<lparr>e_text = ''ORDERS_KEY'', e_inline = False, e_eval = None,
      e_type = TupleType False [LiteralType (StringLit ''orders''), LiteralType (NumberLit 1)] [],
      e_stringLike = False, e_pos = ''20:19''\<rparr>"

definition emit_named_handler :: method_decl where
  "emit_named_handler =
     \<lparr>m_name = ''emitThing'',
      m_decorators = [\<lparr>d_callee = Some ''MessagePattern'', d_argument = orders_tuple_expr\<rparr>],
      m_parameters = [],
      m_namePos = ''21:3'', m_pos = ''20:3''\<rparr>"



definition faulty_modules :: "service_module list" where
  "faulty_modules =
     [\<lparr>s_dir = ''accounts'',
       s_controllers = [\<lparr>f_path = ''apps/accounts/src/accounts.controller.ts'',
                         f_classes = [\<lparr>k_name = ''AccountsController'', k_exported = True,
                                       k_methods = [emit_named_handler, created_handler]\<rparr>]\<rparr>]\<rparr>,
      \<lparr>s_dir = ''users'',
       s_controllers = [\<lparr>f_path = ''apps/users/src/users.controller.ts'',
                         f_classes = [\<lparr>k_name = ''UsersController'', k_exported = True,
                                       k_methods = [created_handler, emit_named_handler]\<rparr>]\<rparr>]\<rparr>]"


section \<open>Properties of the client proxy\<close>

subsection \<open>Auxiliary facts\<close>

lemma retries_five: "(5::nat) = Suc (Suc (Suc (Suc (Suc 0))))"
  by simp

lemma bound_call_fields:
  "stream (fst (bound_call svc m p hp tr st a1 a2)) =
     switchMap (\<lambda>_. timeout_js (call_timeout (if truthy hp then a2 else a1))
                       (respond tr (if startsWith m ''emit'' then Emit else Send) p
                          (if truthy hp then a1 else JObj [])))
       (first_op (conn (fst (connect svc tr st))))"
  "returned (fst (bound_call svc m p hp tr st a1 a2)) =
     (if startsWith m ''emit'' \<or> endsWith m ''$''
      then Stream (stream (fst (bound_call svc m p hp tr st a1 a2)))
      else Deferred (lastValueFrom (stream (fst (bound_call svc m p hp tr st a1 a2)))))"
  "connectCalls (fst (bound_call svc m p hp tr st a1 a2)) = attempts (fst (connect svc tr st))"
  "sent (fst (bound_call svc m p hp tr st a1 a2)) =
     (if delivers (conn (fst (connect svc tr st)))
      then [Request (if startsWith m ''emit'' then Emit else Send) p
              (if truthy hp then a1 else JObj []) (call_timeout (if truthy hp then a2 else a1))]
      else [])"
  "logged (fst (bound_call svc m p hp tr st a1 a2)) = conn_log (fst (connect svc tr st))"
  "snd (bound_call svc m p hp tr st a1 a2) = snd (connect svc tr st)"
  by (simp_all add: bound_call_def Let_def split: prod.splits)

lemma elapsed_Cons: "elapsed ((g, v) # evs) = g + elapsed evs"
  by (simp add: elapsed_def)

lemma lastValueFrom_delay:
  "evs \<noteq> [] \<Longrightarrow>
   lastValueFrom (delay_obs g (Obs evs (Completes c)))
     = Resolved (g + elapsed evs + c) (snd (last evs))"
  by (cases evs) (auto simp: elapsed_Cons)

lemma connect_after_first:
  "\<not> firstCall st \<Longrightarrow>
   connect svc tr st = (\<lparr>conn = tap_connected svc (status tr), attempts = 0, conn_log = []\<rparr>, st)"
  by (simp add: connect_def)

lemma connect_clears_flag: "\<not> firstCall (snd (connect svc tr st))"
  by (simp add: connect_def)

lemma run_calls_Cons:
  "run_calls svc st (c # cs) =
     fst (bound_call svc (c_method c) (c_pattern c) (c_hasPayload c) (c_transport c) st
            (c_arg1 c) (c_arg2 c))
     # run_calls svc
         (snd (bound_call svc (c_method c) (c_pattern c) (c_hasPayload c) (c_transport c) st
                 (c_arg1 c) (c_arg2 c))) cs"
  by (simp add: Let_def split: prod.splits)

lemma run_calls_later:
  "\<not> firstCall st \<Longrightarrow> i < length cs \<Longrightarrow>
   run_calls svc st cs ! i =
     fst (bound_call svc (c_method (cs ! i)) (c_pattern (cs ! i)) (c_hasPayload (cs ! i))
            (c_transport (cs ! i)) st (c_arg1 (cs ! i)) (c_arg2 (cs ! i)))"
proof (induction cs arbitrary: i)
  case Nil
  then show ?case by simp
next
  case (Cons c cs)
  have same: "snd (bound_call svc (c_method c) (c_pattern c) (c_hasPayload c) (c_transport c) st
                     (c_arg1 c) (c_arg2 c)) = st"
    using Cons.prems(1) by (simp add: bound_call_fields(6) connect_after_first)
  show ?case
  proof (cases i)
    case 0
    then show ?thesis by (simp add: run_calls_Cons del: run_calls.simps(2))
  next
    case (Suc j)
    then show ?thesis
      using Cons.IH [of j] Cons.prems by (simp add: run_calls_Cons same del: run_calls.simps(2))
  qed
qed


lemma map_of_service_objects:
  "map_of (map (\<lambda>(s, ms). (s, JObj ms)) services) svc = map_option JObj (map_of services svc)"
  by (induction services) auto

lemma plain_method_name:
  "\<not> startsWith ''getUser'' ''emit''" "\<not> endsWith ''getUser'' ''$''"
  by (simp_all add: startsWith_def endsWith_def)

lemma steady_connection:
  "conn (fst (connect ''users'' steady_transport fresh_proxy))
     = Obs [(10, JStr ''connected'')] (Completes 0)"
  by (simp add: connect_def fresh_proxy_def steady_transport_def attempt_def retries_five)

lemma echo_connection:
  "conn (fst (connect ''users'' echo_transport fresh_proxy))
     = Obs [(10, JStr ''connected'')] (Completes 0)"
  by (simp add: connect_def fresh_proxy_def echo_transport_def attempt_def retries_five)

subsection \<open>The binding of a method name\<close>

text \<open>
  C1. The claim is that the function created for a method name \<open>m\<close> uses the pattern and
  the payload flag recorded under the service's entry for \<open>m\<close>. The generated map gives
  every service an object of method entries, and the \<open>get\<close> trap destructures that object
  itself, without indexing it by \<open>m\<close>: whatever the services and their entries are, the
  first access to a method name raises a TypeError and no function is created.
\<close>

theorem proxy_get_service_entry_not_iterable:
  "proxy_get (JObj (map (\<lambda>(s, ms). (s, JObj ms)) services)) svc Map.empty m
     = Inl (TypeError ''patternMap[serviceName] is not iterable'')"
  by (cases "map_of services svc") (simp_all add: proxy_get_def map_of_service_objects)

subsection \<open>The return shape\<close>

text \<open>
  C2, as stated, fails: for a method name without the marker and without the prefix the
  deferred value is not the first emission of the request stream. With a transport that
  answers 1 and then 2, the call \<open>getUser\<close> resolves to 2.
\<close>

theorem bound_call_first_emission_counterexample:
  "returned (fst (bound_call ''users'' ''getUser'' (JStr ''get_user'') (JBool True)
                    steady_transport fresh_proxy (JNum 7) JUndef))
     = Deferred (Resolved 21 (JNum 2))
   \<and> respond steady_transport Send (JStr ''get_user'') (JNum 7)
     = Obs [(5, JNum 1), (5, JNum 2)] (Completes 1)"
  by (simp add: bound_call_fields plain_method_name steady_connection elapsed_def
      call_timeout_def SERVICE_TIMEOUT_def)
    (simp add: steady_transport_def elapsed_def)

text \<open>
  C2, amended. When the connection delivers a value after \<open>g\<close> ms and the request stream,
  under the per-call timeout, emits the values \<open>evs\<close> and completes: a method name that
  starts with \<open>emit\<close> or ends with \<open>$\<close> returns the stream of all these values, and any other
  method name returns a deferred value that resolves, when the stream completes, to the
  last of them.
\<close>

theorem bound_call_return_shape:
  assumes "conn (fst (connect svc tr st)) = Obs ((g, s) # rest) fin"
    and "timeout_js (call_timeout (if truthy hp then a2 else a1))
           (respond tr (if startsWith m ''emit'' then Emit else Send) p
              (if truthy hp then a1 else JObj []))
         = Obs evs (Completes c)"
    and "evs \<noteq> []"
  shows "returned (fst (bound_call svc m p hp tr st a1 a2)) =
     (if startsWith m ''emit'' \<or> endsWith m ''$''
      then Stream (delay_obs g (Obs evs (Completes c)))
      else Deferred (Resolved (g + elapsed evs + c) (snd (last evs))))"
proof -
  have "stream (fst (bound_call svc m p hp tr st a1 a2)) = delay_obs g (Obs evs (Completes c))"
    using assms(1,2) by (simp add: bound_call_fields(1))
  then show ?thesis
    using assms(3) by (simp add: bound_call_fields(2) lastValueFrom_delay)
qed

theorem bound_call_return_shape_witness:
  "returned (fst (bound_call ''users'' ''getUser'' (JStr ''get_user'') (JBool True)
                    steady_transport fresh_proxy (JNum 7) JUndef))
     = Deferred (Resolved (10 + elapsed [(5, JNum 1), (5 :: nat, JNum 2)] + 1) (JNum 2))"
proof -
  have req: "timeout_js (call_timeout (if truthy (JBool True) then JUndef else JNum 7))
           (respond steady_transport (if startsWith ''getUser'' ''emit'' then Emit else Send)
              (JStr ''get_user'') (if truthy (JBool True) then JNum 7 else JObj []))
         = Obs [(5, JNum 1), (5, JNum 2)] (Completes 1)"
    by (simp add: call_timeout_def SERVICE_TIMEOUT_def steady_transport_def)
  have ne: "[(5 :: nat, JNum 1), (5, JNum 2)] \<noteq> []"
    by simp
  show ?thesis
    using bound_call_return_shape [OF steady_connection req ne]
    by (simp add: plain_method_name)
qed

subsection \<open>Connection retry\<close>




subsection \<open>Payload and options\<close>

text \<open>
  C7. When the recorded flag is true, the first argument is the payload of the request
  and the per-call timeout is read from the second; when it is false, the payload is the
  empty object and the per-call timeout is read from the first argument. The request is
  made when the connection delivers a value.
\<close>

theorem bound_call_payload_and_options:
  "sent (fst (bound_call svc m p (JBool True) tr st a1 a2)) =
     (if delivers (conn (fst (connect svc tr st)))
      then [Request (if startsWith m ''emit'' then Emit else Send) p a1 (call_timeout a2)]
      else [])
   \<and> stream (fst (bound_call svc m p (JBool True) tr st a1 a2)) =
       switchMap (\<lambda>_. timeout_js (call_timeout a2)
                         (respond tr (if startsWith m ''emit'' then Emit else Send) p a1))
         (first_op (conn (fst (connect svc tr st))))
   \<and> sent (fst (bound_call svc m p (JBool False) tr st a1 a2)) =
     (if delivers (conn (fst (connect svc tr st)))
      then [Request (if startsWith m ''emit'' then Emit else Send) p (JObj []) (call_timeout a1)]
      else [])
   \<and> stream (fst (bound_call svc m p (JBool False) tr st a1 a2)) =
       switchMap (\<lambda>_. timeout_js (call_timeout a1)
                         (respond tr (if startsWith m ''emit'' then Emit else Send) p (JObj [])))
         (first_op (conn (fst (connect svc tr st))))"
  by (simp add: bound_call_fields)

theorem bound_call_payload_and_options_witness:
  "sent (fst (bound_call ''users'' ''getUser'' (JStr ''get_user'') (JBool False)
                echo_transport fresh_proxy (JObj [(''timeout'', JNum 100)]) JUndef))
     = [Request Send (JStr ''get_user'') (JObj []) (JNum 100)]
   \<and> stream (fst (bound_call ''users'' ''getUser'' (JStr ''get_user'') (JBool False)
                echo_transport fresh_proxy (JObj [(''timeout'', JNum 100)]) JUndef))
     = Obs [(15, JObj [])] (Completes 1)
   \<and> sent (fst (bound_call ''users'' ''getUser'' (JStr ''get_user'') (JBool True)
                echo_transport fresh_proxy (JNum 7) (JObj [(''timeout'', JNum 100)])))
     = [Request Send (JStr ''get_user'') (JNum 7) (JNum 100)]"
  using bound_call_payload_and_options [where svc = "''users''" and m = "''getUser''"
      and p = "JStr ''get_user''" and tr = echo_transport and st = fresh_proxy
      and ?a1.0 = "JObj [(''timeout'', JNum 100)]" and ?a2.0 = JUndef]
    bound_call_payload_and_options [where svc = "''users''" and m = "''getUser''"
      and p = "JStr ''get_user''" and tr = echo_transport and st = fresh_proxy
      and ?a1.0 = "JNum 7" and ?a2.0 = "JObj [(''timeout'', JNum 100)]"]
  by (simp add: echo_connection plain_method_name delivers_def call_timeout_def)
    (simp add: echo_transport_def)

subsection \<open>Calls after the first\<close>

text \<open>
  C8. In any sequence of calls on one proxy, every call after the first invokes
  \<open>client.connect()\<close> not at all. It observes the status feed: when the first status it
  sees is not "connected", the call fails with the error "Client not connected to" the
  service and makes no request.
\<close>

theorem later_calls_observe_status:
  assumes "0 < i" and "i < length cs"
  shows "connectCalls (run_calls svc st cs ! i) = 0
     \<and> (\<forall>g s rest fin.
          status (c_transport (cs ! i)) = Obs ((g, s) # rest) fin \<and> s \<noteq> JStr ''connected'' \<longrightarrow>
            stream (run_calls svc st cs ! i)
              = Obs [] (Fails g (Error (''Client not connected to '' @ svc)))
            \<and> sent (run_calls svc st cs ! i) = []
            \<and> returned (run_calls svc st cs ! i)
              = (if startsWith (c_method (cs ! i)) ''emit'' \<or> endsWith (c_method (cs ! i)) ''$''
                 then Stream (Obs [] (Fails g (Error (''Client not connected to '' @ svc))))
                 else Deferred (Rejected g (Error (''Client not connected to '' @ svc)))))"
proof -
  obtain c rest where cs: "cs = c # rest"
    using assms(2) by (cases cs) auto
  obtain j where i: "i = Suc j"
    using assms(1) by (cases i) auto
  define st' where "st' = snd (bound_call svc (c_method c) (c_pattern c) (c_hasPayload c)
                                 (c_transport c) st (c_arg1 c) (c_arg2 c))"
  have flag: "\<not> firstCall st'"
    by (simp add: st'_def bound_call_fields(6) connect_clears_flag)
  have j: "j < length rest"
    using assms(2) cs i by simp
  have at: "run_calls svc st cs ! i =
      fst (bound_call svc (c_method (cs ! i)) (c_pattern (cs ! i)) (c_hasPayload (cs ! i))
             (c_transport (cs ! i)) st' (c_arg1 (cs ! i)) (c_arg2 (cs ! i)))"
    using run_calls_later [OF flag j, of svc]
    by (simp add: cs i run_calls_Cons st'_def del: run_calls.simps(2))
  show ?thesis
    unfolding at
    by (auto simp: bound_call_fields connect_after_first [OF flag] delivers_def elapsed_def)
qed

theorem later_calls_observe_status_witness:
  "(0 :: nat) < 1 \<and> 1 < length two_calls
   \<and> connectCalls (run_calls ''users'' fresh_proxy two_calls ! 1) = 0
   \<and> returned (run_calls ''users'' fresh_proxy two_calls ! 1)
       = Deferred (Rejected 3 (Error ''Client not connected to users''))"
proof -
  have len: "1 < length two_calls"
    by (simp add: two_calls_def)
  have feed: "status (c_transport (two_calls ! 1)) = Obs ((3, JStr ''disconnected'') # []) Hangs
      \<and> JStr ''disconnected'' \<noteq> JStr ''connected''"
    by (simp add: two_calls_def disconnected_transport_def)
  have name: "c_method (two_calls ! 1) = ''getUser''"
    by (simp add: two_calls_def)
  from later_calls_observe_status [OF zero_less_one len, where svc = "''users''"
      and st = fresh_proxy] feed
  have "connectCalls (run_calls ''users'' fresh_proxy two_calls ! 1) = 0
      \<and> returned (run_calls ''users'' fresh_proxy two_calls ! 1)
          = (if startsWith (c_method (two_calls ! 1)) ''emit'' \<or> endsWith (c_method (two_calls ! 1)) ''$''
             then Stream (Obs [] (Fails 3 (Error (''Client not connected to '' @ ''users''))))
             else Deferred (Rejected 3 (Error (''Client not connected to '' @ ''users''))))"
    by blast
  then show ?thesis
    using len name by (simp add: plain_method_name)
qed

section \<open>Properties of the generator\<close>

subsection \<open>Auxiliary facts\<close>





lemma users_created_re:
  assumes "q = squote \<or> q = dquote \<or> q = CHR ''`''"
  shows "eventPatternRe ''users'' (q # ''users.created'' @ [q]) = Some ''created''"
    and "eventPatternRe ''accounts'' (q # ''users.created'' @ [q]) = None"
  using assms
  by (auto simp: eventPatternRe_def startsWith_def word_or_hyphen_def lower_letters_def)

lemma emitCreated_name: "''emit'' @ capitalize (toCamelCase ''created'') = ''emitCreated''"
  by (simp add: toCamelCase_def words_def alnum_def lower_letters_def upper_letters_def
      uncapitalize_def capitalize_def toLowerCase_def toUpperCase_def)


lemma extractMethods_Cons:
  "extractMethods svc kebab path cls (m # ms) st =
     ((case fst (extractMethod svc kebab path cls m st) of None \<Rightarrow> [] | Some info \<Rightarrow> [info])
        @ fst (extractMethods svc kebab path cls ms (snd (extractMethod svc kebab path cls m st))),
      snd (extractMethods svc kebab path cls ms (snd (extractMethod svc kebab path cls m st))))"
  by (simp add: Let_def split: prod.splits option.splits)

lemma extractMethods_append:
  "extractMethods svc kebab path cls (xs @ ys) st =
     (fst (extractMethods svc kebab path cls xs st)
        @ fst (extractMethods svc kebab path cls ys (snd (extractMethods svc kebab path cls xs st))),
      snd (extractMethods svc kebab path cls ys (snd (extractMethods svc kebab path cls xs st))))"
proof (induction xs arbitrary: st)
  case Nil
  show ?case by simp
next
  case (Cons x xs)
  show ?case
    by (simp add: extractMethods_Cons Cons.IH del: extractMethods.simps(2))
qed






























subsection \<open>The value of a tuple type\<close>



subsection \<open>Event patterns\<close>

text \<open>
  C5. An event handler whose pattern text is "users.created", in any of the three quotes,
  is accepted in the service whose kebab-case name is \<open>users\<close>, reports nothing and gets
  the client method name \<open>emitCreated\<close>; in the service \<open>accounts\<close> the same handler gives
  the diagnostic on the event pattern format and no record.
\<close>

theorem event_pattern_users_created:
  assumes "find (\<lambda>d. isDecoratorOneOf [''MessagePattern'', ''EventPattern''] (d_callee d))
             (m_decorators method) = Some d"
    and "d_callee d = Some ''EventPattern''"
    and "e_stringLike (d_argument d)"
    and "extractPattern (d_argument d) = Inr (q # ''users.created'' @ [q])"
    and "q = squote \<or> q = dquote \<or> q = CHR ''`''"
  shows "map_option clientMethodName (fst (extractMethod svc ''users'' path cls method st))
           = Some ''emitCreated''
     \<and> snd (extractMethod svc ''users'' path cls method st) = st
     \<and> extractMethod svc ''accounts'' path cls method st
         = (None, report (EventPatternFormat (q # ''users.created'' @ [q]) path
                            (e_pos (d_argument d))) st)"
  using assms(1-4) users_created_re [OF assms(5)] emitCreated_name
  by (simp add: extractMethod_def Let_def clientMethodName_def)

theorem event_pattern_users_created_witness:
  "map_option clientMethodName
     (fst (extractMethod ''Users'' ''users'' ''apps/users/src/users.controller.ts''
             ''UsersController'' created_handler initial_state))
     = Some ''emitCreated''
   \<and> extractMethod ''Users'' ''accounts'' ''apps/users/src/users.controller.ts''
         ''UsersController'' created_handler initial_state
       = (None, report (EventPatternFormat (dquote # ''users.created'' @ [dquote])
                          ''apps/users/src/users.controller.ts'' ''12:17'') initial_state)"
proof -
  let ?d = "\<lparr>d_callee = Some ''EventPattern'', d_argument = users_created_expr\<rparr>"
  have found: "find (\<lambda>d. isDecoratorOneOf [''MessagePattern'', ''EventPattern''] (d_callee d))
                 (m_decorators created_handler) = Some ?d"
    by (simp add: created_handler_def isDecoratorOneOf_def)
  have ev: "d_callee ?d = Some ''EventPattern''"
    by simp
  have str: "e_stringLike (d_argument ?d)"
    by (simp add: users_created_expr_def)
  have pat: "extractPattern (d_argument ?d) = Inr (dquote # ''users.created'' @ [dquote])"
    by (simp add: users_created_expr_def extractPattern_def notEmpty_def)
  have q: "dquote = squote \<or> dquote = dquote \<or> dquote = CHR ''`''"
    by simp
  show ?thesis
    using event_pattern_users_created [OF found ev str pat q, where svc = "''Users''"
        and path = "''apps/users/src/users.controller.ts''" and cls = "''UsersController''"
        and st = initial_state]
    by (simp add: users_created_expr_def)
qed

subsection \<open>The reserved prefix\<close>

text \<open>
  C9. A method whose pattern decorator is \<open>MessagePattern\<close> and whose name starts with
  \<open>emit\<close> gives no record and exactly one diagnostic, the one on its name; the methods
  before it and after it in the class are extracted as they are without it, the later
  ones from the state that holds the diagnostic.
\<close>

theorem emit_prefixed_request_handler:
  assumes "find (\<lambda>d. isDecoratorOneOf [''MessagePattern'', ''EventPattern''] (d_callee d))
             (m_decorators method) = Some d"
    and "d_callee d = Some ''MessagePattern''"
    and "startsWith (m_name method) ''emit''"
  shows "extractMethod svc kebab path cls method st
           = (None, report (EmitPrefixedName (m_name method) path (m_namePos method)) st)
     \<and> printed (snd (extractMethod svc kebab path cls method st))
           = printed st @ [EmitPrefixedName (m_name method) path (m_namePos method)]
     \<and> extractMethods svc kebab path cls (before @ method # after) st
           = (fst (extractMethods svc kebab path cls before st)
                @ fst (extractMethods svc kebab path cls after
                         (report (EmitPrefixedName (m_name method) path (m_namePos method))
                            (snd (extractMethods svc kebab path cls before st)))),
              snd (extractMethods svc kebab path cls after
                     (report (EmitPrefixedName (m_name method) path (m_namePos method))
                        (snd (extractMethods svc kebab path cls before st)))))"
proof -
  have one: "\<And>s. extractMethod svc kebab path cls method s
           = (None, report (EmitPrefixedName (m_name method) path (m_namePos method)) s)"
    using assms by (simp add: extractMethod_def Let_def)
  show ?thesis
    by (simp add: one extractMethods_append extractMethods_Cons report_def
        del: extractMethods.simps(2))
qed

theorem emit_prefixed_request_handler_witness:
  "startsWith (m_name emit_named_handler) ''emit''
   \<and> extractMethod ''Users'' ''users'' ''apps/users/src/users.controller.ts'' ''UsersController''
         emit_named_handler initial_state
       = (None, report (EmitPrefixedName ''emitThing'' ''apps/users/src/users.controller.ts''
                          ''21:3'') initial_state)
   \<and> printed (snd (extractMethod ''Users'' ''users'' ''apps/users/src/users.controller.ts''
                      ''UsersController'' emit_named_handler initial_state))
       = [EmitPrefixedName ''emitThing'' ''apps/users/src/users.controller.ts'' ''21:3'']"
proof -
  let ?d = "\<lparr>d_callee = Some ''MessagePattern'', d_argument = orders_tuple_expr\<rparr>"
  have found: "find (\<lambda>d. isDecoratorOneOf [''MessagePattern'', ''EventPattern''] (d_callee d))
                 (m_decorators emit_named_handler) = Some ?d"
    by (simp add: emit_named_handler_def isDecoratorOneOf_def)
  have msg: "d_callee ?d = Some ''MessagePattern''"
    by simp
  have pre: "startsWith (m_name emit_named_handler) ''emit''"
    by (simp add: emit_named_handler_def startsWith_def)
  have fields: "m_name emit_named_handler = ''emitThing''" "m_namePos emit_named_handler = ''21:3''"
    by (simp_all add: emit_named_handler_def)
  show ?thesis
    using emit_prefixed_request_handler [OF found msg pre, where svc = "''Users''"
        and kebab = "''users''" and path = "''apps/users/src/users.controller.ts''"
        and cls = "''UsersController''" and st = initial_state and before = "[]" and after = "[]"]
      pre
    by (simp add: fields initial_state_def report_def)
qed

subsection \<open>The payload flag\<close>




subsection \<open>The exit code\<close>



text \<open>The pattern map written for the second example: the entry of a service is an object
  of method entries.\<close>

lemma patternMapText_example:
  "patternMapText (methodsByModule (main faulty_modules))
     = Inr (''users: {emitCreated: [('' @ dquote # ''users.created'' @ dquote # ''), true]}'')"
  by code_simp

end
